theory Spec2Isabelle
  imports Complex_Main "HOL-Library.AList"
begin

section \<open>Data model\<close>

text \<open>
  The program is \<^verbatim>\<open>02_GUI.py\<close>. A composition is a Python \<^verbatim>\<open>dict\<close> from element
  symbols to percentages. Python dictionaries keep insertion order and hold each key once,
  so a composition is an association list whose keys are pairwise distinct
  (\<open>is_dict\<close>); assignment \<^verbatim>\<open>d[k] = v\<close> is \<open>AList.update\<close>, which replaces the value
  in place when the key is present and appends the pair otherwise.

  Python floats are modelled by the reals: every theorem below is about the arithmetic
  of the program without rounding.

  \<^verbatim>\<open>ELEMENT_MOLAR_MASS\<close> is read from a data file when the program starts; the file is
  not part of the sources, so the table is a parameter of every function that reads it.
  The dictionary the source falls back to when the file is absent is
  \<open>fallback_masses\<close>.
\<close>

type_synonym composition = "(string \<times> real) list"

type_synonym mass_table = "string \<rightharpoonup> real"

definition is_dict :: "('k \<times> 'v) list \<Rightarrow> bool" where
  "is_dict d = distinct (map fst d)"

definition dict_values :: "('k \<times> 'v) list \<Rightarrow> 'v list" where
  "dict_values d = map snd d"

text \<open>
  The exceptions of the program. The three \<^verbatim>\<open>ValueError\<close>s are told apart by their
  messages: \<^verbatim>\<open>"Sum is {total:.4f}, not equal to 100%..."\<close> is \<open>CompositionSumError total\<close>,
  \<^verbatim>\<open>"Element '{element}' is missing from the database."\<close> is
  \<open>UnknownElementError element\<close> and \<^verbatim>\<open>"Unrecognized format..."\<close> is \<open>ParseError\<close>.
  Python's float division raises \<^verbatim>\<open>ZeroDivisionError\<close> on a zero divisor.
\<close>

datatype error =
    CompositionSumError real
  | UnknownElementError string
  | ParseError
  | ZeroDivisionError

definition fallback_masses :: "(string \<times> real) list" where
  "fallback_masses =
    [(''H'', 1.008), (''He'', 4.0026), (''Li'', 6.94), (''Be'', 9.0122), (''B'', 10.81),
     (''C'', 12.011), (''N'', 14.007), (''O'', 15.999), (''F'', 18.998), (''Ne'', 20.180),
     (''Na'', 22.990), (''Mg'', 24.305), (''Al'', 26.982), (''Si'', 28.085), (''P'', 30.974),
     (''S'', 32.06), (''Cl'', 35.45), (''Ar'', 39.948), (''K'', 39.098), (''Ca'', 40.078),
     (''Sc'', 44.956), (''Ti'', 47.867), (''V'', 50.942), (''Cr'', 51.996), (''Mn'', 54.938),
     (''Fe'', 55.845), (''Co'', 58.933), (''Ni'', 58.693), (''Cu'', 63.546), (''Zn'', 65.38)]"

definition fallback_table :: mass_table where
  "fallback_table = map_of fallback_masses"

section \<open>Validation and conversion\<close>

text \<open>
  \<^verbatim>\<open>
  def check_input_composition(comp_dict, mode='wt'):
      total = sum(comp_dict.values())
      if not (abs(total-100) <= 0.01):
          raise ValueError(f"Sum is {total:.4f}, not equal to 100%. ...")
  \<close>
\<close>

definition check_input_composition :: "composition \<Rightarrow> error + unit" where
  "check_input_composition comp_dict =
     (let total' = sum_list (dict_values comp_dict)
      in if \<not> (\<bar>total' - 100\<bar> \<le> 0.01) then Inl (CompositionSumError total') else Inr ())"

text \<open>Python's \<^verbatim>\<open>a / b\<close> on floats.\<close>

definition py_div :: "real \<Rightarrow> real \<Rightarrow> error + real" where
  "py_div a b = (if b = 0 then Inl ZeroDivisionError else Inr (a / b))"

text \<open>
  The first loop of \<^verbatim>\<open>wt_to_at\<close>, with the dictionary \<^verbatim>\<open>molar_amounts\<close> as accumulator:
  \<^verbatim>\<open>
  for element, wt_percent in wt_dict.items():
      if element not in ELEMENT_MOLAR_MASS:
          raise ValueError(f"Element '{element}' is missing from the database.")
      molar_amounts[element] = wt_percent / ELEMENT_MOLAR_MASS[element]
  \<close>
\<close>

fun molar_loop :: "mass_table \<Rightarrow> composition \<Rightarrow> composition \<Rightarrow> error + composition" where
  "molar_loop tbl [] molar_amounts = Inr molar_amounts"
| "molar_loop tbl ((element, wt_percent) # rest) molar_amounts =
     (case tbl element of
        None \<Rightarrow> Inl (UnknownElementError element)
      | Some m \<Rightarrow>
          (case py_div wt_percent m of
             Inl e \<Rightarrow> Inl e
           | Inr q \<Rightarrow> molar_loop tbl rest (AList.update element q molar_amounts)))"

text \<open>
  The comprehension \<^verbatim>\<open>{elem: (val / total) * 100 for elem, val in d.items()}\<close>, which
  both conversions end with.
\<close>

fun percent_loop :: "real \<Rightarrow> composition \<Rightarrow> composition \<Rightarrow> error + composition" where
  "percent_loop total' [] out = Inr out"
| "percent_loop total' ((elem, val) # rest) out =
     (case py_div val total' of
        Inl e \<Rightarrow> Inl e
      | Inr q \<Rightarrow> percent_loop total' rest (AList.update elem (q * 100) out))"

definition wt_to_at :: "mass_table \<Rightarrow> composition \<Rightarrow> error + composition" where
  "wt_to_at tbl wt_dict =
     (case check_input_composition wt_dict of
        Inl e \<Rightarrow> Inl e
      | Inr _ \<Rightarrow>
          (case molar_loop tbl wt_dict [] of
             Inl e \<Rightarrow> Inl e
           | Inr molar_amounts \<Rightarrow>
               (let total_moles = sum_list (dict_values molar_amounts)
                in percent_loop total_moles molar_amounts [])))"

text \<open>
  The first loop of \<^verbatim>\<open>at_to_wt\<close>:
  \<^verbatim>\<open>
  for element, at_percent in at_dict.items():
      if element not in ELEMENT_MOLAR_MASS:
          raise ValueError(f"Element '{element}' is missing from the database.")
      masses[element] = at_percent * ELEMENT_MOLAR_MASS[element]
  \<close>
\<close>

fun mass_loop :: "mass_table \<Rightarrow> composition \<Rightarrow> composition \<Rightarrow> error + composition" where
  "mass_loop tbl [] masses = Inr masses"
| "mass_loop tbl ((element, at_percent) # rest) masses =
     (case tbl element of
        None \<Rightarrow> Inl (UnknownElementError element)
      | Some m \<Rightarrow> mass_loop tbl rest (AList.update element (at_percent * m) masses))"

definition at_to_wt :: "mass_table \<Rightarrow> composition \<Rightarrow> error + composition" where
  "at_to_wt tbl at_dict =
     (case check_input_composition at_dict of
        Inl e \<Rightarrow> Inl e
      | Inr _ \<Rightarrow>
          (case mass_loop tbl at_dict [] of
             Inl e \<Rightarrow> Inl e
           | Inr masses \<Rightarrow>
               (let total_mass = sum_list (dict_values masses)
                in percent_loop total_mass masses [])))"

section \<open>Parsing\<close>

text \<open>
  A string is a list of characters with code points below 256. The character classes are
  those of Python's \<^verbatim>\<open>re\<close> on \<^verbatim>\<open>str\<close> patterns in that range: \<^verbatim>\<open>\s\<close> and \<^verbatim>\<open>str.strip\<close>
  take the code points 9 to 13, 28 to 32, 133 and 160 as white space, \<^verbatim>\<open>\d\<close> is
  \<^verbatim>\<open>0\<close> to \<^verbatim>\<open>9\<close>.
\<close>

definition code :: "char \<Rightarrow> nat" where
  "code c = of_char c"

definition is_space :: "char \<Rightarrow> bool" where
  "is_space c = (let n = code c in (9 \<le> n \<and> n \<le> 13) \<or> (28 \<le> n \<and> n \<le> 32) \<or> n = 133 \<or> n = 160)"

definition is_digit :: "char \<Rightarrow> bool" where
  "is_digit c = (let n = code c in 48 \<le> n \<and> n \<le> 57)"

definition is_lower :: "char \<Rightarrow> bool" where
  "is_lower c = (let n = code c in 97 \<le> n \<and> n \<le> 122)"

definition is_letter :: "char \<Rightarrow> bool" where
  "is_letter c = (let n = code c in (65 \<le> n \<and> n \<le> 90) \<or> (97 \<le> n \<and> n \<le> 122))"

definition is_quote :: "char \<Rightarrow> bool" where
  "is_quote c = (code c = 39 \<or> code c = 34)"

definition is_sep :: "char \<Rightarrow> bool" where
  "is_sep c = (c = CHR '':'' \<or> c = CHR ''='')"

definition is_dot :: "char \<Rightarrow> bool" where
  "is_dot c = (c = CHR ''.'')"

definition strip :: "string \<Rightarrow> string" where
  "strip s = rev (dropWhile is_space (rev (dropWhile is_space s)))"

definition startswith :: "string \<Rightarrow> string \<Rightarrow> bool" where
  "startswith s p = (take (length p) s = p)"

definition endswith :: "string \<Rightarrow> string \<Rightarrow> bool" where
  "endswith s p = (length p \<le> length s \<and> drop (length s - length p) s = p)"

subsection \<open>The regular expression\<close>

text \<open>
  The pattern of the source uses single-character classes only, each either once,
  optional (\<^verbatim>\<open>?\<close>) or repeated (\<^verbatim>\<open>*\<close>, \<^verbatim>\<open>+\<close>), all greedy. \<open>rx_match\<close> is the backtracking
  matcher of \<^verbatim>\<open>re\<close> on such patterns: a quantifier first takes as much as it can and
  gives characters back when the rest of the pattern fails. It returns the text each
  item of the pattern has consumed, and the unread rest of the string.
\<close>

datatype rx =
    Chr "char \<Rightarrow> bool"
  | Opt "char \<Rightarrow> bool"
  | Star "char \<Rightarrow> bool"
  | Plus "char \<Rightarrow> bool"

definition skip_item :: "(string list \<times> string) option \<Rightarrow> (string list \<times> string) option" where
  "skip_item r = map_option (\<lambda>(ch, rest). ([] # ch, rest)) r"

definition take_item :: "char \<Rightarrow> (string list \<times> string) option \<Rightarrow> (string list \<times> string) option" where
  "take_item c r = map_option (\<lambda>(ch, rest). ([c] # ch, rest)) r"

definition more_item :: "char \<Rightarrow> (string list \<times> string) option \<Rightarrow> (string list \<times> string) option" where
  "more_item c r = map_option (\<lambda>(ch, rest). ((c # hd ch) # tl ch, rest)) r"

fun rx_match :: "rx list \<Rightarrow> string \<Rightarrow> (string list \<times> string) option" where
  "rx_match [] s = Some ([], s)"
| "rx_match (Chr p # r) [] = None"
| "rx_match (Chr p # r) (c # cs) = (if p c then take_item c (rx_match r cs) else None)"
| "rx_match (Opt p # r) [] = skip_item (rx_match r [])"
| "rx_match (Opt p # r) (c # cs) =
     (case (if p c then take_item c (rx_match r cs) else None) of
        Some m \<Rightarrow> Some m
      | None \<Rightarrow> skip_item (rx_match r (c # cs)))"
| "rx_match (Star p # r) [] = skip_item (rx_match r [])"
| "rx_match (Star p # r) (c # cs) =
     (case (if p c then more_item c (rx_match (Star p # r) cs) else None) of
        Some m \<Rightarrow> Some m
      | None \<Rightarrow> skip_item (rx_match r (c # cs)))"
| "rx_match (Plus p # r) [] = None"
| "rx_match (Plus p # r) (c # cs) =
     (if p c then more_item c (rx_match (Star p # r) cs) else None)"

text \<open>
  \<^verbatim>\<open>pattern = r"['\"]?([A-Za-z][a-z]?)['\"]?\s*[:=]\s*(\d+\.?\d*)"\<close>:
  group 1 is made of items 1 and 2, group 2 of items 7 to 9.
\<close>

definition pattern :: "rx list" where
  "pattern =
     [Opt is_quote, Chr is_letter, Opt is_lower, Opt is_quote, Star is_space, Chr is_sep,
      Star is_space, Plus is_digit, Opt is_dot, Star is_digit]"

definition group1 :: "string list \<Rightarrow> string" where
  "group1 ch = concat (take 2 (drop 1 ch))"

definition group2 :: "string list \<Rightarrow> string" where
  "group2 ch = concat (take 3 (drop 7 ch))"

text \<open>
  \<^verbatim>\<open>re.findall(pattern, user_str)\<close>: the search goes from left to right, reports the groups
  of each match and resumes where the match has ended; after an empty match it resumes
  one character later.
\<close>

function findall :: "string \<Rightarrow> (string \<times> string) list" where
  "findall s =
     (case rx_match pattern s of
        Some (ch, rest) \<Rightarrow>
          (if length rest < length s then (group1 ch, group2 ch) # findall rest
           else (group1 ch, group2 ch) # (case s of [] \<Rightarrow> [] | c # cs \<Rightarrow> findall cs))
      | None \<Rightarrow> (case s of [] \<Rightarrow> [] | c # cs \<Rightarrow> findall cs))"
  by pat_completeness auto
termination
  by (relation "measure length") auto

text \<open>
  \<^verbatim>\<open>float(val)\<close> on a string that group 2 can hold, digits with an optional point and
  further digits: the decimal number it denotes.
\<close>

definition digit_val :: "char \<Rightarrow> nat" where
  "digit_val c = code c - 48"

definition nat_of_digits :: "string \<Rightarrow> nat" where
  "nat_of_digits ds = fold (\<lambda>c n. 10 * n + digit_val c) ds 0"

definition py_float :: "string \<Rightarrow> real" where
  "py_float val =
     (let ip = takeWhile is_digit val; fp = drop 1 (dropWhile is_digit val)
      in real (nat_of_digits ip) + real (nat_of_digits fp) / 10 ^ length fp)"

subsection \<open>The parser\<close>

text \<open>
  The values \<^verbatim>\<open>eval\<close> can return, as far as the program tells them apart: a dictionary
  or something else; inside a dictionary, integers, floats, strings and the rest.
  \<^verbatim>\<open>eval\<close> itself is the interpreter's: the parser takes it as the parameter \<open>py_eval\<close>,
  whose value \<open>None\<close> stands for any exception it raises (the bare \<^verbatim>\<open>except:\<close> of the source
  catches them all).
\<close>

datatype pyval =
    PInt int
  | PFloat real
  | PStr string
  | PDict "(pyval \<times> pyval) list"
  | POther

type_synonym evaluator = "string \<Rightarrow> pyval option"

text \<open>
  \<^verbatim>\<open>
  try:
      clean_str = user_str.strip()
      if clean_str.startswith("{") and clean_str.endswith("}"):
          result = eval(clean_str)
          if isinstance(result, dict):
              return result
  except:
      pass
  \<close>
  \<open>Some result\<close> is the \<^verbatim>\<open>return\<close>; \<open>None\<close> is every way of reaching the code after the
  \<^verbatim>\<open>try\<close> statement.
\<close>

definition literal_stage :: "evaluator \<Rightarrow> string \<Rightarrow> (pyval \<times> pyval) list option" where
  "literal_stage py_eval user_str =
     (let clean_str = strip user_str
      in if startswith clean_str ''{'' \<and> endswith clean_str ''}''
         then (case py_eval clean_str of
                 Some (PDict result) \<Rightarrow> Some result
               | _ \<Rightarrow> None)
         else None)"

text \<open>
  \<^verbatim>\<open>
  matches = re.findall(pattern, user_str)
  if not matches:
      raise ValueError("Unrecognized format. ...")
  comp_dict = {}
  for elem, val in matches:
      comp_dict[elem] = float(val)
  return comp_dict
  \<close>
\<close>

definition store_match :: "string \<times> string \<Rightarrow> (pyval \<times> pyval) list \<Rightarrow> (pyval \<times> pyval) list" where
  "store_match m comp_dict = AList.update (PStr (fst m)) (PFloat (py_float (snd m))) comp_dict"

definition scan_stage :: "string \<Rightarrow> error + (pyval \<times> pyval) list" where
  "scan_stage user_str =
     (let matches = findall user_str
      in if matches = [] then Inl ParseError else Inr (fold store_match matches []))"

definition parse_composition_input :: "evaluator \<Rightarrow> string \<Rightarrow> error + (pyval \<times> pyval) list" where
  "parse_composition_input py_eval user_str =
     (case literal_stage py_eval user_str of
        Some result \<Rightarrow> Inr result
      | None \<Rightarrow> scan_stage user_str)"

section \<open>Notions of the specification\<close>

text \<open>
  Modelled from the spec: the data file \<^verbatim>\<open>01_element_atomic-masses.json\<close> that fills
  \<^verbatim>\<open>ELEMENT_MOLAR_MASS\<close> is not among the sources. The data model of the specification
  gives every symbol of the table a positive molar mass.
\<close>

definition table_ok :: "mass_table \<Rightarrow> bool" where
  "table_ok tbl = (\<forall>e m. tbl e = Some m \<longrightarrow> 0 < m)"

definition dict_keys :: "('k \<times> 'v) list \<Rightarrow> 'k list" where
  "dict_keys d = map fst d"

definition known :: "mass_table \<Rightarrow> composition \<Rightarrow> bool" where
  "known tbl c = list_all (\<lambda>e. tbl e \<noteq> None) (dict_keys c)"

definition sums_to_100 :: "composition \<Rightarrow> bool" where
  "sums_to_100 c = (\<bar>sum_list (dict_values c) - 100\<bar> \<le> 0.01)"

definition non_negative :: "composition \<Rightarrow> bool" where
  "non_negative c = list_all (\<lambda>v. 0 \<le> v) (dict_values c)"

definition molar_mass :: "mass_table \<Rightarrow> string \<Rightarrow> real" where
  "molar_mass tbl e = (case tbl e of Some m \<Rightarrow> m | None \<Rightarrow> 0)"

text \<open>
  The conversions in the words of the specification: the molar amount of an element is
  its weight percent divided by its molar mass, its mass contribution is its atomic percent
  times its molar mass, and each output value is the amount divided by the total of the
  amounts, times 100.
\<close>

definition molar_amount :: "mass_table \<Rightarrow> string \<times> real \<Rightarrow> real" where
  "molar_amount tbl p = snd p / molar_mass tbl (fst p)"

definition mass_contribution :: "mass_table \<Rightarrow> string \<times> real \<Rightarrow> real" where
  "mass_contribution tbl p = snd p * molar_mass tbl (fst p)"

definition total_moles :: "mass_table \<Rightarrow> composition \<Rightarrow> real" where
  "total_moles tbl wt = sum_list (map (molar_amount tbl) wt)"

definition total_mass :: "mass_table \<Rightarrow> composition \<Rightarrow> real" where
  "total_mass tbl at' = sum_list (map (mass_contribution tbl) at')"

definition weightToAtomic :: "mass_table \<Rightarrow> composition \<Rightarrow> composition" where
  "weightToAtomic tbl wt = map (\<lambda>p. (fst p, molar_amount tbl p / total_moles tbl wt * 100)) wt"

definition atomicToWeight :: "mass_table \<Rightarrow> composition \<Rightarrow> composition" where
  "atomicToWeight tbl at' = map (\<lambda>p. (fst p, mass_contribution tbl p / total_mass tbl at' * 100)) at'"

text \<open>One conversion after the other.\<close>

definition wt_at_wt :: "mass_table \<Rightarrow> composition \<Rightarrow> error + composition" where
  "wt_at_wt tbl c = (case wt_to_at tbl c of Inl e \<Rightarrow> Inl e | Inr a \<Rightarrow> at_to_wt tbl a)"

definition at_wt_at :: "mass_table \<Rightarrow> composition \<Rightarrow> error + composition" where
  "at_wt_at tbl c = (case at_to_wt tbl c of Inl e \<Rightarrow> Inl e | Inr w \<Rightarrow> wt_to_at tbl w)"

text \<open>
  \<open>close_to tol out c\<close>: \<open>out\<close> has the keys of \<open>c\<close>, in the same order, and each value
  of \<open>out\<close> is within the relative tolerance \<open>tol\<close> of the value of \<open>c\<close>.
\<close>

definition close_to :: "real \<Rightarrow> composition \<Rightarrow> composition \<Rightarrow> bool" where
  "close_to tol out c =
     list_all2 (\<lambda>p q. fst p = fst q \<and> \<bar>snd p - snd q\<bar> \<le> tol * \<bar>snd q\<bar>) out c"

definition rescaled :: "composition \<Rightarrow> composition" where
  "rescaled c = map (\<lambda>p. (fst p, snd p * 100 / sum_list (dict_values c))) c"

text \<open>The first key of a composition, in the order of its keys, that the table lacks.\<close>

definition first_missing :: "mass_table \<Rightarrow> composition \<Rightarrow> string option" where
  "first_missing tbl c = find (\<lambda>e. tbl e = None) (dict_keys c)"










text \<open>Every key is a string and every value a float.\<close>

definition coerced :: "(pyval \<times> pyval) list \<Rightarrow> bool" where
  "coerced d = list_all (\<lambda>p. (case fst p of PStr _ \<Rightarrow> True | _ \<Rightarrow> False) \<and>
                               (case snd p of PFloat _ \<Rightarrow> True | _ \<Rightarrow> False)) d"

text \<open>
  What Python's \<^verbatim>\<open>eval\<close> returns on the three dictionary displays that the examples
  below use. The only other string that the examples hand to it is
  \<^verbatim>\<open>{Fe: 98.0, C: 2.0}\<close>, on which it raises \<^verbatim>\<open>NameError\<close>.
\<close>

definition eval_examples :: evaluator where
  \<open>eval_examples s =
     (if s = ''{"Fe": 98.0, "C": 2.0}'' then Some (PDict [(PStr ''Fe'', PFloat 98), (PStr ''C'', PFloat 2)])
      else if s = ''{26: 100}'' then Some (PDict [(PInt 26, PInt 100)])
      else if s = ''{}'' then Some (PDict [])
      else None)\<close>

declare findall.simps [simp del]

section \<open>Dictionaries\<close>

lemma update_fresh: "k \<notin> fst ` set al \<Longrightarrow> AList.update k v al = al @ [(k, v)]"
  by (induction al) auto

lemma sums_to_100_nonempty: "sums_to_100 c \<Longrightarrow> c \<noteq> []"
  by (auto simp: sums_to_100_def dict_values_def)

lemma check_input_composition_iff:
  "check_input_composition c = Inr () \<longleftrightarrow> sums_to_100 c"
  by (simp add: check_input_composition_def sums_to_100_def Let_def)

lemma known_nonzero:
  assumes "table_ok tbl" and "known tbl c" and "p \<in> set c"
  shows "\<exists>m. tbl (fst p) = Some m \<and> 0 < m \<and> molar_mass tbl (fst p) = m"
proof -
  from assms(2,3) have "tbl (fst p) \<noteq> None"
    by (auto simp: known_def dict_keys_def list_all_iff)
  then obtain m where "tbl (fst p) = Some m" by auto
  with assms(1) show ?thesis by (auto simp: table_ok_def molar_mass_def)
qed

section \<open>The iteration over the keys\<close>

lemma molar_loop_ok:
  "distinct (map fst (acc @ xs)) \<Longrightarrow> table_ok tbl \<Longrightarrow> known tbl xs \<Longrightarrow>
     molar_loop tbl xs acc = Inr (acc @ map (\<lambda>p. (fst p, molar_amount tbl p)) xs)"
proof (induction xs arbitrary: acc)
  case Nil
  then show ?case by simp
next
  case (Cons p xs)
  obtain e w where p: "p = (e, w)" by (cases p)
  from known_nonzero[OF Cons.prems(2,3), of p] obtain m
    where m: "tbl e = Some m" "0 < m" "molar_mass tbl e = m" by (auto simp: p)
  from Cons.prems(1) have "e \<notin> fst ` set acc" by (auto simp: p)
  then have upd: "AList.update e (w / m) acc = acc @ [(e, w / m)]" by (rule update_fresh)
  from Cons.prems(1) have d: "distinct (map fst ((acc @ [(e, w / m)]) @ xs))" by (simp add: p)
  from Cons.prems(3) have "known tbl xs" by (simp add: known_def dict_keys_def)
  from Cons.IH[OF d Cons.prems(2) this] m upd show ?case
    by (simp add: p molar_amount_def py_div_def)
qed

lemma mass_loop_ok:
  "distinct (map fst (acc @ xs)) \<Longrightarrow> known tbl xs \<Longrightarrow>
     mass_loop tbl xs acc = Inr (acc @ map (\<lambda>p. (fst p, mass_contribution tbl p)) xs)"
proof (induction xs arbitrary: acc)
  case Nil
  then show ?case by simp
next
  case (Cons p xs)
  obtain e w where p: "p = (e, w)" by (cases p)
  from Cons.prems(2) obtain m where m: "tbl e = Some m"
    by (auto simp: p known_def dict_keys_def)
  from Cons.prems(1) have "e \<notin> fst ` set acc" by (auto simp: p)
  then have upd: "AList.update e (w * m) acc = acc @ [(e, w * m)]" by (rule update_fresh)
  from Cons.prems(1) have d: "distinct (map fst ((acc @ [(e, w * m)]) @ xs))" by (simp add: p)
  from Cons.prems(2) have "known tbl xs" by (simp add: known_def dict_keys_def)
  from Cons.IH[OF d this] m upd show ?case
    by (simp add: p mass_contribution_def molar_mass_def)
qed

lemma percent_loop_ok:
  "distinct (map fst (acc @ xs)) \<Longrightarrow> t \<noteq> 0 \<Longrightarrow>
     percent_loop t xs acc = Inr (acc @ map (\<lambda>p. (fst p, snd p / t * 100)) xs)"
proof (induction xs arbitrary: acc)
  case Nil
  then show ?case by simp
next
  case (Cons p xs)
  obtain e w where p: "p = (e, w)" by (cases p)
  from Cons.prems(1) have "e \<notin> fst ` set acc" by (auto simp: p)
  then have upd: "AList.update e (w / t * 100) acc = acc @ [(e, w / t * 100)]" by (rule update_fresh)
  from Cons.prems(1) have d: "distinct (map fst ((acc @ [(e, w / t * 100)]) @ xs))" by (simp add: p)
  from Cons.IH[OF d Cons.prems(2)] upd Cons.prems(2) show ?case
    by (simp add: p py_div_def)
qed

lemma percent_loop_zero: "xs \<noteq> [] \<Longrightarrow> percent_loop 0 xs acc = Inl ZeroDivisionError"
  by (cases xs) (auto simp: py_div_def)

section \<open>The conversions on known symbols\<close>

lemma wt_to_at_known:
  assumes "is_dict wt" and "sums_to_100 wt" and "table_ok tbl" and "known tbl wt"
  shows "wt_to_at tbl wt =
           (if total_moles tbl wt = 0 then Inl ZeroDivisionError else Inr (weightToAtomic tbl wt))"
proof -
  let ?ms = "map (\<lambda>p. (fst p, molar_amount tbl p)) wt"
  from assms(1) have d: "distinct (map fst ([] @ wt))" by (simp add: is_dict_def)
  have loop: "molar_loop tbl wt [] = Inr ?ms"
    using molar_loop_ok[OF d assms(3,4)] by simp
  have tot: "sum_list (dict_values ?ms) = total_moles tbl wt"
    by (simp add: dict_values_def total_moles_def comp_def)
  have ne: "?ms \<noteq> []" using sums_to_100_nonempty[OF assms(2)] by simp
  from assms(1) have d': "distinct (map fst ([] @ ?ms))" by (simp add: is_dict_def comp_def)
  show ?thesis
  proof (cases "total_moles tbl wt = 0")
    case True
    with percent_loop_zero[OF ne] loop tot assms(2) show ?thesis
      by (simp add: wt_to_at_def check_input_composition_iff[THEN iffD2])
  next
    case False
    from percent_loop_ok[OF d' False] loop tot assms(2) False show ?thesis
      by (simp add: wt_to_at_def check_input_composition_iff[THEN iffD2] weightToAtomic_def comp_def)
  qed
qed

lemma at_to_wt_known:
  assumes "is_dict at'" and "sums_to_100 at'" and "known tbl at'"
  shows "at_to_wt tbl at' =
           (if total_mass tbl at' = 0 then Inl ZeroDivisionError else Inr (atomicToWeight tbl at'))"
proof -
  let ?ms = "map (\<lambda>p. (fst p, mass_contribution tbl p)) at'"
  from assms(1) have d: "distinct (map fst ([] @ at'))" by (simp add: is_dict_def)
  have loop: "mass_loop tbl at' [] = Inr ?ms"
    using mass_loop_ok[OF d assms(3)] by simp
  have tot: "sum_list (dict_values ?ms) = total_mass tbl at'"
    by (simp add: dict_values_def total_mass_def comp_def)
  have ne: "?ms \<noteq> []" using sums_to_100_nonempty[OF assms(2)] by simp
  from assms(1) have d': "distinct (map fst ([] @ ?ms))" by (simp add: is_dict_def comp_def)
  show ?thesis
  proof (cases "total_mass tbl at' = 0")
    case True
    with percent_loop_zero[OF ne] loop tot assms(2) show ?thesis
      by (simp add: at_to_wt_def check_input_composition_iff[THEN iffD2])
  next
    case False
    from percent_loop_ok[OF d' False] loop tot assms(2) False show ?thesis
      by (simp add: at_to_wt_def check_input_composition_iff[THEN iffD2] atomicToWeight_def comp_def)
  qed
qed

section \<open>Facts about the conversions\<close>

lemma fallback_table_ok: "table_ok fallback_table"
  unfolding table_ok_def fallback_table_def fallback_masses_def
  by (auto split: if_splits)

lemma keys_weightToAtomic: "dict_keys (weightToAtomic tbl c) = dict_keys c"
  by (simp add: weightToAtomic_def dict_keys_def comp_def)

lemma keys_atomicToWeight: "dict_keys (atomicToWeight tbl c) = dict_keys c"
  by (simp add: atomicToWeight_def dict_keys_def comp_def)

lemma map_of_mapped:
  "distinct (map fst c) \<Longrightarrow> p \<in> set c \<Longrightarrow> map_of (map (\<lambda>p. (fst p, f p)) c) (fst p) = Some (f p)"
  by (induction c) (auto simp: rev_image_eqI)

lemma sum_list_scaled: "sum_list (map (\<lambda>p. f p / t * 100) c) = sum_list (map f c) / t * (100::real)"
  by (induction c) (simp_all add: add_divide_distrib distrib_right)

lemma sum_weightToAtomic:
  "total_moles tbl c \<noteq> 0 \<Longrightarrow> sum_list (dict_values (weightToAtomic tbl c)) = 100"
  using sum_list_scaled[of "molar_amount tbl" "total_moles tbl c" c]
  by (simp add: weightToAtomic_def dict_values_def comp_def total_moles_def)

lemma sum_atomicToWeight:
  "total_mass tbl c \<noteq> 0 \<Longrightarrow> sum_list (dict_values (atomicToWeight tbl c)) = 100"
  using sum_list_scaled[of "mass_contribution tbl" "total_mass tbl c" c]
  by (simp add: atomicToWeight_def dict_values_def comp_def total_mass_def)

lemma sum_list_pos_real:
  fixes f :: "'a \<Rightarrow> real"
  shows "\<forall>x \<in> set xs. 0 \<le> f x \<Longrightarrow> \<exists>x \<in> set xs. 0 < f x \<Longrightarrow> 0 < sum_list (map f xs)"
proof (induction xs)
  case Nil
  then show ?case by simp
next
  case (Cons x xs)
  have rest: "0 \<le> sum_list (map f xs)"
    using Cons.prems(1) by (intro sum_list_nonneg) auto
  show ?case
  proof (cases "0 < f x")
    case True
    with rest show ?thesis by simp
  next
    case False
    with Cons.prems have "\<exists>x \<in> set xs. 0 < f x" "0 \<le> f x" by auto
    with Cons.IH Cons.prems(1) show ?thesis by simp
  qed
qed

lemma some_positive:
  assumes "sums_to_100 c"
  shows "\<exists>p \<in> set c. 0 < snd p"
proof (rule ccontr)
  assume "\<not> (\<exists>p \<in> set c. 0 < snd p)"
  then have "sum_list (map snd c) \<le> 0"
    by (intro sum_list_nonpos) (auto simp: not_less)
  with assms show False by (simp add: sums_to_100_def dict_values_def)
qed

lemma totals_positive:
  assumes "non_negative c" and "sums_to_100 c" and "table_ok tbl" and "known tbl c"
  shows "0 < total_moles tbl c" and "0 < total_mass tbl c"
proof -
  from some_positive[OF assms(2)] obtain p where p: "p \<in> set c" "0 < snd p" by auto
  have nn: "\<And>q. q \<in> set c \<Longrightarrow> 0 \<le> snd q"
    using assms(1) by (auto simp: non_negative_def dict_values_def list_all_iff)
  have mass: "\<And>q. q \<in> set c \<Longrightarrow> 0 < molar_mass tbl (fst q)"
    using known_nonzero[OF assms(3,4)] by auto
  have "\<forall>q \<in> set c. 0 \<le> molar_amount tbl q"
  proof
    fix q assume "q \<in> set c"
    then have "0 \<le> snd q" "0 < molar_mass tbl (fst q)" by (rule nn, rule mass)
    then show "0 \<le> molar_amount tbl q" by (simp add: molar_amount_def)
  qed
  moreover have "\<exists>q \<in> set c. 0 < molar_amount tbl q"
  proof
    show "0 < molar_amount tbl p" using p(2) mass[OF p(1)] by (simp add: molar_amount_def)
  qed (rule p(1))
  ultimately show "0 < total_moles tbl c"
    unfolding total_moles_def by (rule sum_list_pos_real)
  have "\<forall>q \<in> set c. 0 \<le> mass_contribution tbl q"
  proof
    fix q assume "q \<in> set c"
    then have "0 \<le> snd q" "0 < molar_mass tbl (fst q)" by (rule nn, rule mass)
    then show "0 \<le> mass_contribution tbl q" by (simp add: mass_contribution_def)
  qed
  moreover have "\<exists>q \<in> set c. 0 < mass_contribution tbl q"
  proof
    show "0 < mass_contribution tbl p" using p(2) mass[OF p(1)] by (simp add: mass_contribution_def)
  qed (rule p(1))
  ultimately show "0 < total_mass tbl c"
    unfolding total_mass_def by (rule sum_list_pos_real)
qed

section \<open>Unknown symbols\<close>

lemma first_missing_Some:
  "\<not> known tbl c \<Longrightarrow> \<exists>s. first_missing tbl c = Some s"
  by (induction c) (auto simp: known_def first_missing_def dict_keys_def)

lemma molar_loop_unknown:
  "table_ok tbl \<Longrightarrow> first_missing tbl xs = Some s \<Longrightarrow>
     molar_loop tbl xs acc = Inl (UnknownElementError s)"
proof (induction xs arbitrary: acc)
  case Nil
  then show ?case by (simp add: first_missing_def dict_keys_def)
next
  case (Cons p xs)
  obtain e w where p: "p = (e, w)" by (cases p)
  show ?case
  proof (cases "tbl e")
    case None
    with Cons.prems(2) show ?thesis by (simp add: p first_missing_def dict_keys_def)
  next
    case (Some m)
    with Cons.prems(1) have "m \<noteq> 0" by (auto simp: table_ok_def)
    moreover from Some Cons.prems(2) have "first_missing tbl xs = Some s"
      by (simp add: p first_missing_def dict_keys_def)
    ultimately show ?thesis using Some Cons.IH[OF Cons.prems(1)]
      by (simp add: p py_div_def)
  qed
qed

lemma mass_loop_unknown:
  "first_missing tbl xs = Some s \<Longrightarrow> mass_loop tbl xs acc = Inl (UnknownElementError s)"
proof (induction xs arbitrary: acc)
  case Nil
  then show ?case by (simp add: first_missing_def dict_keys_def)
next
  case (Cons p xs)
  obtain e w where p: "p = (e, w)" by (cases p)
  show ?case
  proof (cases "tbl e")
    case None
    with Cons.prems show ?thesis by (simp add: p first_missing_def dict_keys_def)
  next
    case (Some m)
    with Cons.prems have "first_missing tbl xs = Some s"
      by (simp add: p first_missing_def dict_keys_def)
    with Some Cons.IH show ?thesis by (simp add: p)
  qed
qed

lemma wt_to_at_unknown:
  "table_ok tbl \<Longrightarrow> sums_to_100 c \<Longrightarrow> first_missing tbl c = Some s \<Longrightarrow>
     wt_to_at tbl c = Inl (UnknownElementError s)"
  by (simp add: wt_to_at_def check_input_composition_iff[THEN iffD2] molar_loop_unknown)

lemma at_to_wt_unknown:
  "sums_to_100 c \<Longrightarrow> first_missing tbl c = Some s \<Longrightarrow>
     at_to_wt tbl c = Inl (UnknownElementError s)"
  by (simp add: at_to_wt_def check_input_composition_iff[THEN iffD2] mass_loop_unknown)

lemma molar_loop_Inr_known: "molar_loop tbl xs acc = Inr ms \<Longrightarrow> known tbl xs"
proof (induction xs arbitrary: acc)
  case Nil
  then show ?case by (simp add: known_def dict_keys_def)
next
  case (Cons p xs)
  obtain e w where p: "p = (e, w)" by (cases p)
  from Cons.prems obtain m q where "tbl e = Some m"
    and "molar_loop tbl xs (AList.update e q acc) = Inr ms"
    by (auto simp: p split: option.splits sum.splits)
  with Cons.IH show ?case by (auto simp: p known_def dict_keys_def)
qed

lemma mass_loop_Inr_known: "mass_loop tbl xs acc = Inr ms \<Longrightarrow> known tbl xs"
proof (induction xs arbitrary: acc)
  case Nil
  then show ?case by (simp add: known_def dict_keys_def)
next
  case (Cons p xs)
  obtain e w where p: "p = (e, w)" by (cases p)
  from Cons.prems obtain m where "tbl e = Some m"
    and "mass_loop tbl xs (AList.update e (w * m) acc) = Inr ms"
    by (auto simp: p split: option.splits)
  with Cons.IH show ?case by (auto simp: p known_def dict_keys_def)
qed

lemma fallback_Fe: "fallback_table ''Fe'' = Some 55.845"
  by (simp add: fallback_table_def fallback_masses_def)

lemma fallback_C: "fallback_table ''C'' = Some 12.011"
  by (simp add: fallback_table_def fallback_masses_def)

lemma fallback_N: "fallback_table ''N'' = Some 14.007"
  by (simp add: fallback_table_def fallback_masses_def)

lemma fallback_S: "fallback_table ''S'' = Some 32.06"
  by (simp add: fallback_table_def fallback_masses_def)

lemma fallback_Cl: "fallback_table ''Cl'' = Some 35.45"
  by (simp add: fallback_table_def fallback_masses_def)

lemma fallback_Xx: "fallback_table ''Xx'' = None"
  by (simp add: fallback_table_def fallback_masses_def)

section \<open>One conversion after the other\<close>

lemma rescaled_same: "sum_list (dict_values c) = 100 \<Longrightarrow> rescaled c = c"
  by (simp add: rescaled_def map_idI)

lemma rescaled_close:
  assumes "sums_to_100 c"
  shows "close_to (1 / 9999) (rescaled c) c"
proof -
  let ?S = "sum_list (dict_values c)"
  from assms have near: "\<bar>?S - 100\<bar> \<le> 0.01" by (simp only: sums_to_100_def)
  from near have a: "?S - 100 \<le> 0.01" by (rule abs_le_D1)
  from near have b: "- (?S - 100) \<le> 0.01" by (rule abs_le_D2)
  have S: "9999 * \<bar>100 - ?S\<bar> \<le> ?S"
  proof (cases "?S \<le> 100")
    case True
    then have "\<bar>100 - ?S\<bar> = 100 - ?S" by simp
    with b show ?thesis by simp
  next
    case False
    then have "\<bar>100 - ?S\<bar> = ?S - 100" by simp
    with a show ?thesis by simp
  qed
  from b have pos: "0 < ?S" by simp
  have "\<bar>v * 100 / ?S - v\<bar> \<le> 1 / 9999 * \<bar>v\<bar>" for v :: real
  proof -
    have "v * 100 / ?S - v = v * ((100 - ?S) / ?S)"
      using pos by (simp add: field_simps)
    then have "\<bar>v * 100 / ?S - v\<bar> = \<bar>v\<bar> * (\<bar>100 - ?S\<bar> / ?S)"
      using pos by (simp add: abs_mult)
    also have "\<bar>100 - ?S\<bar> / ?S \<le> 1 / 9999"
      using S pos by (simp add: field_simps)
    then have "\<bar>v\<bar> * (\<bar>100 - ?S\<bar> / ?S) \<le> \<bar>v\<bar> * (1 / 9999)"
      by (intro mult_left_mono) auto
    finally show ?thesis by simp
  qed
  then show ?thesis
    by (simp add: close_to_def rescaled_def list_all2_map1 list_all2_same)
qed

lemma wt_at_wt_known:
  assumes "is_dict c" and "sums_to_100 c" and "table_ok tbl" and "known tbl c"
    and T: "total_moles tbl c \<noteq> 0"
  shows "wt_at_wt tbl c = Inr (rescaled c)"
proof -
  let ?T = "total_moles tbl c"
  let ?S = "sum_list (dict_values c)"
  let ?a = "weightToAtomic tbl c"
  from assms(2) have S: "?S \<noteq> 0" by (auto simp: sums_to_100_def)
  have first: "wt_to_at tbl c = Inr ?a" using wt_to_at_known[OF assms(1-4)] T by simp
  have da: "is_dict ?a" using assms(1) keys_weightToAtomic[of tbl c]
    by (simp add: is_dict_def dict_keys_def)
  have sa: "sums_to_100 ?a" using sum_weightToAtomic[OF T] by (simp add: sums_to_100_def)
  have ka: "known tbl ?a" using assms(4) keys_weightToAtomic[of tbl c] by (simp add: known_def)
  have contrib: "mass_contribution tbl (fst p, molar_amount tbl p / ?T * 100) = snd p / ?T * 100"
    if "p \<in> set c" for p
  proof -
    from known_nonzero[OF assms(3,4) that] have "molar_mass tbl (fst p) \<noteq> 0" by auto
    then show ?thesis by (simp add: mass_contribution_def molar_amount_def)
  qed
  have "map (mass_contribution tbl) ?a = map (\<lambda>p. snd p / ?T * 100) c"
    unfolding weightToAtomic_def using contrib by simp
  then have "total_mass tbl ?a = sum_list (map (\<lambda>p. snd p / ?T * 100) c)"
    unfolding total_mass_def by (rule arg_cong)
  also have "\<dots> = ?S / ?T * 100"
    unfolding dict_values_def by (rule sum_list_scaled)
  finally have M: "total_mass tbl ?a = ?S / ?T * 100" .
  with S T have Mnz: "total_mass tbl ?a \<noteq> 0" by simp
  have "atomicToWeight tbl ?a = rescaled c"
  proof -
    have "(mass_contribution tbl (fst p, molar_amount tbl p / ?T * 100)) / (?S / ?T * 100) * 100
            = snd p * 100 / ?S" if "p \<in> set c" for p
      using contrib[OF that] S T by (simp add: field_simps)
    then show ?thesis
      unfolding atomicToWeight_def M rescaled_def
      by (simp add: weightToAtomic_def comp_def)
  qed
  with at_to_wt_known[OF da sa ka] Mnz first show ?thesis
    by (simp add: wt_at_wt_def)
qed

lemma at_wt_at_known:
  assumes "is_dict c" and "sums_to_100 c" and "table_ok tbl" and "known tbl c"
    and M: "total_mass tbl c \<noteq> 0"
  shows "at_wt_at tbl c = Inr (rescaled c)"
proof -
  let ?M = "total_mass tbl c"
  let ?S = "sum_list (dict_values c)"
  let ?w = "atomicToWeight tbl c"
  from assms(2) have S: "?S \<noteq> 0" by (auto simp: sums_to_100_def)
  have first: "at_to_wt tbl c = Inr ?w" using at_to_wt_known[OF assms(1,2,4)] M by simp
  have dw: "is_dict ?w" using assms(1) keys_atomicToWeight[of tbl c]
    by (simp add: is_dict_def dict_keys_def)
  have sw: "sums_to_100 ?w" using sum_atomicToWeight[OF M] by (simp add: sums_to_100_def)
  have kw: "known tbl ?w" using assms(4) keys_atomicToWeight[of tbl c] by (simp add: known_def)
  have amount: "molar_amount tbl (fst p, mass_contribution tbl p / ?M * 100) = snd p / ?M * 100"
    if "p \<in> set c" for p
  proof -
    from known_nonzero[OF assms(3,4) that] have "molar_mass tbl (fst p) \<noteq> 0" by auto
    then show ?thesis by (simp add: mass_contribution_def molar_amount_def)
  qed
  have "map (molar_amount tbl) ?w = map (\<lambda>p. snd p / ?M * 100) c"
    unfolding atomicToWeight_def using amount by simp
  then have "total_moles tbl ?w = sum_list (map (\<lambda>p. snd p / ?M * 100) c)"
    unfolding total_moles_def by (rule arg_cong)
  also have "\<dots> = ?S / ?M * 100"
    unfolding dict_values_def by (rule sum_list_scaled)
  finally have T: "total_moles tbl ?w = ?S / ?M * 100" .
  with S M have Tnz: "total_moles tbl ?w \<noteq> 0" by simp
  have "weightToAtomic tbl ?w = rescaled c"
  proof -
    have "(molar_amount tbl (fst p, mass_contribution tbl p / ?M * 100)) / (?S / ?M * 100) * 100
            = snd p * 100 / ?S" if "p \<in> set c" for p
      using amount[OF that] S M by (simp add: field_simps)
    then show ?thesis
      unfolding weightToAtomic_def T rescaled_def
      by (simp add: atomicToWeight_def comp_def)
  qed
  with wt_to_at_known[OF dw sw assms(3) kw] Tnz first show ?thesis
    by (simp add: at_wt_at_def)
qed

section \<open>Validation\<close>



section \<open>Weight percent to atomic percent\<close>

text \<open>
  C1, as amended. For every composition with distinct keys whose values sum to 100 within
  0.01, whose symbols all have an entry in a table of positive masses, and whose molar
  amounts do not sum to zero, \<open>wt_to_at\<close> returns a dictionary with the keys of the input,
  in the same order, in which the value of each element is its weight percent divided by
  its molar mass, divided by the sum of these quotients over all elements, times 100.
  With the masses Fe = 55.845 and C = 12.011 the result for Fe 98.0, C 2.0 is the value of
  that formula.
\<close>

theorem wt_to_at_formula:
  assumes "is_dict wt" and "sums_to_100 wt" and "table_ok tbl" and "known tbl wt"
    and "total_moles tbl wt \<noteq> 0"
  shows "wt_to_at tbl wt = Inr (weightToAtomic tbl wt) \<and>
         dict_keys (weightToAtomic tbl wt) = dict_keys wt \<and>
         (\<forall>p \<in> set wt. map_of (weightToAtomic tbl wt) (fst p) =
            Some (snd p / molar_mass tbl (fst p) /
                  (\<Sum>q\<leftarrow>wt. snd q / molar_mass tbl (fst q)) * 100))"
proof (intro conjI ballI)
  show "wt_to_at tbl wt = Inr (weightToAtomic tbl wt)"
    using wt_to_at_known[OF assms(1-4)] assms(5) by simp
  show "dict_keys (weightToAtomic tbl wt) = dict_keys wt"
    by (rule keys_weightToAtomic)
  fix p assume "p \<in> set wt"
  with assms(1) show "map_of (weightToAtomic tbl wt) (fst p) =
      Some (snd p / molar_mass tbl (fst p) / (\<Sum>q\<leftarrow>wt. snd q / molar_mass tbl (fst q)) * 100)"
    unfolding weightToAtomic_def is_dict_def
    by (simp add: map_of_mapped total_moles_def molar_amount_def[abs_def])
qed

theorem wt_to_at_formula_witness:
  "wt_to_at fallback_table [(''Fe'', 98.0), (''C'', 2.0)] =
     Inr [(''Fe'', 98.0 / 55.845 / (98.0 / 55.845 + 2.0 / 12.011) * 100),
          (''C'', 2.0 / 12.011 / (98.0 / 55.845 + 2.0 / 12.011) * 100)]"
proof -
  let ?wt = "[(''Fe'', 98.0::real), (''C'', 2.0)]"
  have d: "is_dict ?wt" by (simp add: is_dict_def)
  have s: "sums_to_100 ?wt" by (simp add: sums_to_100_def dict_values_def)
  have k: "known fallback_table ?wt"
    by (simp add: known_def dict_keys_def fallback_Fe fallback_C del: not_None_eq)
  have m: "molar_mass fallback_table ''Fe'' = 55.845" "molar_mass fallback_table ''C'' = 12.011"
    by (simp_all add: molar_mass_def fallback_Fe fallback_C)
  have t: "total_moles fallback_table ?wt = 98.0 / 55.845 + 2.0 / 12.011"
    by (simp add: total_moles_def molar_amount_def m)
  have nz: "total_moles fallback_table ?wt \<noteq> 0" unfolding t by simp
  have w: "weightToAtomic fallback_table ?wt =
      [(''Fe'', 98.0 / 55.845 / (98.0 / 55.845 + 2.0 / 12.011) * 100),
       (''C'', 2.0 / 12.011 / (98.0 / 55.845 + 2.0 / 12.011) * 100)]"
    unfolding weightToAtomic_def t by (simp add: molar_amount_def m)
  from wt_to_at_formula[OF d s fallback_table_ok k nz, THEN conjunct1]
  show ?thesis unfolding w .
qed

text \<open>
  C1 as stated leaves the molar amounts free to cancel. The composition C -601.7511,
  N 701.7507 sums to 99.9996 and both symbols are in the table, the molar amounts are
  -50.1 and 50.1, and the division by their sum raises \<^verbatim>\<open>ZeroDivisionError\<close>.
\<close>

theorem wt_to_at_zero_total_counterexample:
  "is_dict [(''C'', - 601.7511::real), (''N'', 701.7507)] \<and>
   sums_to_100 [(''C'', - 601.7511), (''N'', 701.7507)] \<and>
   known fallback_table [(''C'', - 601.7511), (''N'', 701.7507)] \<and>
   wt_to_at fallback_table [(''C'', - 601.7511), (''N'', 701.7507)] = Inl ZeroDivisionError"
  by (simp add: is_dict_def sums_to_100_def known_def dict_keys_def wt_to_at_def check_input_composition_def
      dict_values_def fallback_C fallback_N py_div_def del: not_None_eq)

section \<open>The sum of the output\<close>

text \<open>
  C3, as amended. For every composition with distinct keys whose values sum to 100 within
  0.01 and whose symbols all have an entry in a table of positive masses, each of
  \<open>wt_to_at\<close> and \<open>at_to_wt\<close> either returns a dictionary whose values sum to exactly 100, or
  raises \<^verbatim>\<open>ZeroDivisionError\<close>; it returns whenever no value of the input is negative.
\<close>

theorem output_sums_to_100:
  assumes "is_dict c" and "sums_to_100 c" and "table_ok tbl" and "known tbl c"
  shows "(case wt_to_at tbl c of
            Inr out \<Rightarrow> sum_list (dict_values out) = 100
          | Inl e \<Rightarrow> e = ZeroDivisionError \<and> \<not> non_negative c) \<and>
         (case at_to_wt tbl c of
            Inr out \<Rightarrow> sum_list (dict_values out) = 100
          | Inl e \<Rightarrow> e = ZeroDivisionError \<and> \<not> non_negative c)"
proof
  show "case wt_to_at tbl c of
            Inr out \<Rightarrow> sum_list (dict_values out) = 100
          | Inl e \<Rightarrow> e = ZeroDivisionError \<and> \<not> non_negative c"
  proof (cases "total_moles tbl c = 0")
    case True
    with totals_positive(1)[OF _ assms(2-4)] have "\<not> non_negative c" by auto
    with True wt_to_at_known[OF assms] show ?thesis by simp
  next
    case False
    with wt_to_at_known[OF assms] sum_weightToAtomic[OF False] show ?thesis by simp
  qed
  show "case at_to_wt tbl c of
            Inr out \<Rightarrow> sum_list (dict_values out) = 100
          | Inl e \<Rightarrow> e = ZeroDivisionError \<and> \<not> non_negative c"
  proof (cases "total_mass tbl c = 0")
    case True
    with totals_positive(2)[OF _ assms(2-4)] have "\<not> non_negative c" by auto
    with True at_to_wt_known[OF assms(1,2,4)] show ?thesis by simp
  next
    case False
    with at_to_wt_known[OF assms(1,2,4)] sum_atomicToWeight[OF False] show ?thesis by simp
  qed
qed

theorem output_sums_to_100_witness:
  "(case wt_to_at fallback_table [(''Fe'', 98.0), (''C'', 2.0)] of
      Inr out \<Rightarrow> sum_list (dict_values out) = 100 | Inl e \<Rightarrow> False) \<and>
   (case at_to_wt fallback_table [(''Fe'', 98.0), (''C'', 2.0)] of
      Inr out \<Rightarrow> sum_list (dict_values out) = 100 | Inl e \<Rightarrow> False)"
proof -
  let ?c = "[(''Fe'', 98.0::real), (''C'', 2.0)]"
  have d: "is_dict ?c" by (simp add: is_dict_def)
  have s: "sums_to_100 ?c" by (simp add: sums_to_100_def dict_values_def)
  have k: "known fallback_table ?c"
    by (simp add: known_def dict_keys_def fallback_Fe fallback_C del: not_None_eq)
  have n: "non_negative ?c" by (simp add: non_negative_def dict_values_def)
  from output_sums_to_100[OF d s fallback_table_ok k] n show ?thesis
    by (auto split: sum.splits)
qed

text \<open>
  C3 as stated promises an output for every such input. The composition Cl -945.770,
  S 1045.775 sums to 100.005 and both symbols are in the table, the mass contributions are
  -33527.5465 and 33527.5465, and \<open>at_to_wt\<close> raises \<^verbatim>\<open>ZeroDivisionError\<close> instead of
  returning values that sum to 100.
\<close>

theorem at_to_wt_zero_total_counterexample:
  "is_dict [(''Cl'', - 945.770::real), (''S'', 1045.775)] \<and>
   sums_to_100 [(''Cl'', - 945.770), (''S'', 1045.775)] \<and>
   known fallback_table [(''Cl'', - 945.770), (''S'', 1045.775)] \<and>
   at_to_wt fallback_table [(''Cl'', - 945.770), (''S'', 1045.775)] = Inl ZeroDivisionError"
  by (simp add: is_dict_def sums_to_100_def known_def dict_keys_def at_to_wt_def
      check_input_composition_def dict_values_def fallback_Cl fallback_S py_div_def
      del: not_None_eq)

section \<open>Unknown elements\<close>

text \<open>
  C5. For every composition that passes the validation of its sum and has a key without
  an entry in the table (of positive masses), both conversions raise the error that names
  the first such key in the order of the keys; no dictionary is returned.
\<close>

theorem unknown_element:
  assumes "table_ok tbl" and "sums_to_100 c" and "e \<in> set (dict_keys c)" and "tbl e = None"
  shows "\<exists>s. first_missing tbl c = Some s \<and>
             wt_to_at tbl c = Inl (UnknownElementError s) \<and>
             at_to_wt tbl c = Inl (UnknownElementError s)"
proof -
  from assms(3,4) have "\<not> known tbl c" by (auto simp: known_def list_all_iff)
  then obtain s where s: "first_missing tbl c = Some s"
    using first_missing_Some by blast
  with wt_to_at_unknown[OF assms(1,2) s] at_to_wt_unknown[OF assms(2) s] show ?thesis by simp
qed

theorem unknown_element_witness:
  "wt_to_at fallback_table [(''Fe'', 50.0), (''Xx'', 50.0)] = Inl (UnknownElementError ''Xx'') \<and>
   at_to_wt fallback_table [(''Fe'', 50.0), (''Xx'', 50.0)] = Inl (UnknownElementError ''Xx'')"
proof -
  let ?c = "[(''Fe'', 50.0::real), (''Xx'', 50.0)]"
  have s: "sums_to_100 ?c" by (simp add: sums_to_100_def dict_values_def)
  have e: "''Xx'' \<in> set (dict_keys ?c)" by (simp add: dict_keys_def)
  have f: "first_missing fallback_table ?c = Some ''Xx''"
    by (simp add: first_missing_def dict_keys_def fallback_Fe fallback_Xx)
  from unknown_element[OF fallback_table_ok s e fallback_Xx] f show ?thesis by simp
qed

section \<open>Division by zero\<close>

text \<open>
  C10. For every composition with distinct keys whose values are all non-negative and sum
  to 100 within 0.01, and for every table whose masses are all positive: the total of the
  molar amounts that the loop of \<open>wt_to_at\<close> builds and the total of the mass contributions
  that the loop of \<open>at_to_wt\<close> builds are positive, neither conversion raises
  \<^verbatim>\<open>ZeroDivisionError\<close>, and both return when every symbol is in the table.
\<close>

theorem totals_never_zero:
  assumes "is_dict c" and "non_negative c" and "sums_to_100 c" and "table_ok tbl"
  shows "(\<forall>ms. molar_loop tbl c [] = Inr ms \<longrightarrow> 0 < sum_list (dict_values ms)) \<and>
         (\<forall>ms. mass_loop tbl c [] = Inr ms \<longrightarrow> 0 < sum_list (dict_values ms)) \<and>
         wt_to_at tbl c \<noteq> Inl ZeroDivisionError \<and>
         at_to_wt tbl c \<noteq> Inl ZeroDivisionError \<and>
         (known tbl c \<longrightarrow> (\<exists>out. wt_to_at tbl c = Inr out) \<and> (\<exists>out. at_to_wt tbl c = Inr out))"
proof (intro conjI allI impI)
  from assms(1) have d: "distinct (map fst ([] @ c))" by (simp add: is_dict_def)
  { fix ms assume loop: "molar_loop tbl c [] = Inr ms"
    then have k: "known tbl c" by (rule molar_loop_Inr_known)
    from molar_loop_ok[OF d assms(4) k] loop
    have "sum_list (dict_values ms) = total_moles tbl c"
      by (simp add: dict_values_def total_moles_def comp_def)
    with totals_positive(1)[OF assms(2,3,4) k]
    show "0 < sum_list (dict_values ms)" by simp }
  { fix ms assume loop: "mass_loop tbl c [] = Inr ms"
    then have k: "known tbl c" by (rule mass_loop_Inr_known)
    from mass_loop_ok[OF d k] loop
    have "sum_list (dict_values ms) = total_mass tbl c"
      by (simp add: dict_values_def total_mass_def comp_def)
    with totals_positive(2)[OF assms(2,3,4) k]
    show "0 < sum_list (dict_values ms)" by simp }
  show "wt_to_at tbl c \<noteq> Inl ZeroDivisionError"
  proof (cases "known tbl c")
    case True
    from totals_positive(1)[OF assms(2,3,4) True] wt_to_at_known[OF assms(1,3,4) True]
    show ?thesis by simp
  next
    case False
    then obtain s where "first_missing tbl c = Some s" using first_missing_Some by blast
    from wt_to_at_unknown[OF assms(4,3) this] show ?thesis by simp
  qed
  show "at_to_wt tbl c \<noteq> Inl ZeroDivisionError"
  proof (cases "known tbl c")
    case True
    from totals_positive(2)[OF assms(2,3,4) True] at_to_wt_known[OF assms(1,3) True]
    show ?thesis by simp
  next
    case False
    then obtain s where "first_missing tbl c = Some s" using first_missing_Some by blast
    from at_to_wt_unknown[OF assms(3) this] show ?thesis by simp
  qed
  { assume k: "known tbl c"
    from totals_positive(1)[OF assms(2,3,4) k] wt_to_at_known[OF assms(1,3,4) k]
    show "\<exists>out. wt_to_at tbl c = Inr out" by simp
    from totals_positive(2)[OF assms(2,3,4) k] at_to_wt_known[OF assms(1,3) k]
    show "\<exists>out. at_to_wt tbl c = Inr out" by simp }
qed

theorem totals_never_zero_witness:
  "molar_loop fallback_table [(''Fe'', 98.0), (''C'', 2.0)] [] =
     Inr [(''Fe'', 98.0 / 55.845), (''C'', 2.0 / 12.011)] \<and>
   0 < sum_list (dict_values [(''Fe'', 98.0 / 55.845), (''C'', 2.0 / 12.011 :: real)]) \<and>
   mass_loop fallback_table [(''Fe'', 98.0), (''C'', 2.0)] [] =
     Inr [(''Fe'', 98.0 * 55.845), (''C'', 2.0 * 12.011)] \<and>
   0 < sum_list (dict_values [(''Fe'', 98.0 * 55.845), (''C'', 2.0 * 12.011 :: real)]) \<and>
   wt_to_at fallback_table [(''Fe'', 98.0), (''C'', 2.0)] \<noteq> Inl ZeroDivisionError \<and>
   at_to_wt fallback_table [(''Fe'', 98.0), (''C'', 2.0)] \<noteq> Inl ZeroDivisionError"
proof -
  let ?c = "[(''Fe'', 98.0::real), (''C'', 2.0)]"
  have d: "is_dict ?c" by (simp add: is_dict_def)
  have s: "sums_to_100 ?c" by (simp add: sums_to_100_def dict_values_def)
  have n: "non_negative ?c" by (simp add: non_negative_def dict_values_def)
  have l1: "molar_loop fallback_table ?c [] = Inr [(''Fe'', 98.0 / 55.845), (''C'', 2.0 / 12.011)]"
    by (simp add: fallback_Fe fallback_C py_div_def)
  have l2: "mass_loop fallback_table ?c [] = Inr [(''Fe'', 98.0 * 55.845), (''C'', 2.0 * 12.011)]"
    by (simp add: fallback_Fe fallback_C)
  note t = totals_never_zero[OF d n s fallback_table_ok]
  from t have "0 < sum_list (dict_values [(''Fe'', 98.0 / 55.845), (''C'', 2.0 / 12.011 :: real)])"
    using l1 by blast
  moreover from t have "0 < sum_list (dict_values [(''Fe'', 98.0 * 55.845), (''C'', 2.0 * 12.011 :: real)])"
    using l2 by blast
  moreover from t have "wt_to_at fallback_table ?c \<noteq> Inl ZeroDivisionError"
    "at_to_wt fallback_table ?c \<noteq> Inl ZeroDivisionError" by blast+
  ultimately show ?thesis using l1 l2 by blast
qed

section \<open>Round trips\<close>

text \<open>
  C2, as amended. For every composition \<open>c\<close> with distinct keys whose values sum to 100
  within 0.01 and whose symbols all have an entry in a table of positive masses, in
  arithmetic without rounding: \<open>at_to_wt\<close> after \<open>wt_to_at\<close>, and \<open>wt_to_at\<close> after
  \<open>at_to_wt\<close>, return \<open>c\<close> with every value multiplied by 100 and divided by the sum of the
  values of \<open>c\<close>, unless the total of the first conversion is zero, when
  \<^verbatim>\<open>ZeroDivisionError\<close> is raised. The result is \<open>c\<close> itself when the values of \<open>c\<close> sum to
  exactly 100, and is within the relative tolerance 1/9999 of \<open>c\<close> in every case.
\<close>

theorem round_trip:
  assumes "is_dict c" and "sums_to_100 c" and "table_ok tbl" and "known tbl c"
  shows "wt_at_wt tbl c =
           (if total_moles tbl c = 0 then Inl ZeroDivisionError else Inr (rescaled c)) \<and>
         at_wt_at tbl c =
           (if total_mass tbl c = 0 then Inl ZeroDivisionError else Inr (rescaled c)) \<and>
         (sum_list (dict_values c) = 100 \<longrightarrow> rescaled c = c) \<and>
         close_to (1 / 9999) (rescaled c) c"
proof (intro conjI impI)
  show "wt_at_wt tbl c =
           (if total_moles tbl c = 0 then Inl ZeroDivisionError else Inr (rescaled c))"
  proof (cases "total_moles tbl c = 0")
    case True
    with wt_to_at_known[OF assms] show ?thesis by (simp add: wt_at_wt_def)
  next
    case False
    with wt_at_wt_known[OF assms False] show ?thesis by simp
  qed
  show "at_wt_at tbl c =
           (if total_mass tbl c = 0 then Inl ZeroDivisionError else Inr (rescaled c))"
  proof (cases "total_mass tbl c = 0")
    case True
    with at_to_wt_known[OF assms(1,2,4)] show ?thesis by (simp add: at_wt_at_def)
  next
    case False
    with at_wt_at_known[OF assms False] show ?thesis by simp
  qed
  show "rescaled c = c" if "sum_list (dict_values c) = 100"
    using that by (rule rescaled_same)
  show "close_to (1 / 9999) (rescaled c) c"
    using assms(2) by (rule rescaled_close)
qed

theorem round_trip_witness:
  "wt_at_wt fallback_table [(''Fe'', 98.0), (''C'', 2.0)] = Inr [(''Fe'', 98.0), (''C'', 2.0)] \<and>
   at_wt_at fallback_table [(''Fe'', 98.0), (''C'', 2.0)] = Inr [(''Fe'', 98.0), (''C'', 2.0)]"
proof -
  let ?c = "[(''Fe'', 98.0::real), (''C'', 2.0)]"
  have d: "is_dict ?c" by (simp add: is_dict_def)
  have s: "sums_to_100 ?c" by (simp add: sums_to_100_def dict_values_def)
  have k: "known fallback_table ?c"
    by (simp add: known_def dict_keys_def fallback_Fe fallback_C del: not_None_eq)
  have n: "non_negative ?c" by (simp add: non_negative_def dict_values_def)
  have e: "sum_list (dict_values ?c) = 100" by (simp add: dict_values_def)
  note p = totals_positive[OF n s fallback_table_ok k]
  note r = round_trip[OF d s fallback_table_ok k]
  from r e have same: "rescaled ?c = ?c" by blast
  from r p(1) have "wt_at_wt fallback_table ?c = Inr (rescaled ?c)" by simp
  moreover from r p(2) have "at_wt_at fallback_table ?c = Inr (rescaled ?c)" by simp
  ultimately show ?thesis unfolding same by (rule conjI)
qed

text \<open>
  C2 as stated asks for the relative tolerance \<open>10\<^sup>-\<^sup>6\<close> on every input that passes the
  validation. The composition Fe 100.005 passes it; \<open>wt_to_at\<close> returns Fe 100, and so does
  \<open>at_to_wt\<close> after it: the distance to 100.005 is 0.005, fifty times the tolerance.
\<close>

theorem round_trip_counterexample:
  "is_dict [(''Fe'', 100.005::real)] \<and>
   sums_to_100 [(''Fe'', 100.005)] \<and>
   known fallback_table [(''Fe'', 100.005)] \<and>
   wt_at_wt fallback_table [(''Fe'', 100.005)] = Inr [(''Fe'', 100)] \<and>
   \<not> close_to (1 / 10 ^ 6) [(''Fe'', 100)] [(''Fe'', 100.005)]"
  by (simp add: is_dict_def sums_to_100_def known_def dict_keys_def wt_at_wt_def wt_to_at_def
      at_to_wt_def check_input_composition_def dict_values_def fallback_Fe py_div_def close_to_def
      del: not_None_eq)

section \<open>The matcher\<close>






section \<open>The pattern\<close>










section \<open>The search\<close>





section \<open>The dictionary of the matches\<close>










lemma fold_store_match_nonempty: "ms \<noteq> [] \<or> acc \<noteq> [] \<Longrightarrow> fold store_match ms acc \<noteq> []"
proof (induction ms arbitrary: acc)
  case Nil
  then show ?case by simp
next
  case (Cons m ms)
  have "store_match m acc \<noteq> []" by (cases acc) (simp_all add: store_match_def)
  with Cons.IH[of "store_match m acc"] show ?case by simp
qed

section \<open>The parser\<close>

lemma parse_scan: "literal_stage py_eval s = None \<Longrightarrow> parse_composition_input py_eval s = scan_stage s"
  by (simp add: parse_composition_input_def)

lemma parse_literal: "literal_stage py_eval s = Some d \<Longrightarrow> parse_composition_input py_eval s = Inr d"
  by (simp add: parse_composition_input_def)

lemma literal_stage_raise: "py_eval (strip s) = None \<Longrightarrow> literal_stage py_eval s = None"
  by (simp add: literal_stage_def Let_def)


section \<open>Examples of the parser\<close>

lemmas class_defs = is_quote_def is_letter_def is_lower_def is_space_def is_sep_def is_digit_def
  is_dot_def code_def

lemmas match_defs = pattern_def group1_def group2_def skip_item_def take_item_def more_item_def

lemma py_float_98: "py_float ''98.0'' = 98"
  by (simp add: py_float_def nat_of_digits_def digit_val_def is_digit_def code_def)

lemma py_float_2: "py_float ''2.0'' = 2"
  by (simp add: py_float_def nat_of_digits_def digit_val_def is_digit_def code_def)


lemma findall_braced: "findall ''{Fe: 98.0, C: 2.0}'' = [(''Fe'', ''98.0''), (''C'', ''2.0'')]"
  by (simp add: findall.simps match_defs class_defs)

lemma findall_gibberish: "findall ''gibberish'' = []"
  by (simp add: findall.simps match_defs class_defs)

lemma findall_empty_dict: "findall ''{}'' = []"
  by (simp add: findall.simps match_defs class_defs)


lemma literal_stage_gibberish: "literal_stage eval_examples ''gibberish'' = None"
  by (simp add: literal_stage_def strip_def startswith_def is_space_def code_def)

lemma strip_empty_dict: "strip ''{}'' = ''{}''"
  by (simp add: strip_def is_space_def code_def)

lemma strip_int_dict: "strip ''{26: 100}'' = ''{26: 100}''"
  by (simp add: strip_def is_space_def code_def)

lemma strip_braced: "strip ''{Fe: 98.0, C: 2.0}'' = ''{Fe: 98.0, C: 2.0}''"
  by (simp add: strip_def is_space_def code_def)

lemma strip_literal: \<open>strip ''{"Fe": 98.0, "C": 2.0}'' = ''{"Fe": 98.0, "C": 2.0}''\<close>
  by (simp add: strip_def is_space_def code_def)

section \<open>The token scan\<close>



section \<open>Failure of the parser\<close>

text \<open>
  C7, as amended. The parser raises \<open>ParseError\<close> exactly when the first stage returns no
  dictionary and the search finds no match; it does so on \<^verbatim>\<open>gibberish\<close>. It returns the
  empty dictionary exactly when the first stage returns the empty dictionary.
\<close>

theorem parse_error_iff:
  "(parse_composition_input py_eval s = Inl ParseError \<longleftrightarrow>
      literal_stage py_eval s = None \<and> findall s = []) \<and>
   (parse_composition_input py_eval s = Inr [] \<longleftrightarrow> literal_stage py_eval s = Some [])"
proof (cases "literal_stage py_eval s")
  case None
  then show ?thesis
    using fold_store_match_nonempty[of "findall s" "[]"]
    by (simp add: parse_scan scan_stage_def Let_def)
next
  case (Some d)
  then show ?thesis by (simp add: parse_literal)
qed

theorem parse_error_iff_witness:
  "parse_composition_input eval_examples ''gibberish'' = Inl ParseError"
  using parse_error_iff[of eval_examples "''gibberish''", THEN conjunct1, THEN iffD2]
    literal_stage_gibberish findall_gibberish
  by simp

text \<open>
  C7 as stated lets the parser fail whenever neither stage yields a pair, and never return
  an empty mapping. On \<^verbatim>\<open>{}\<close> the first stage evaluates the empty dictionary, which holds
  no pair, the search finds no match, and the parser returns the empty dictionary.
\<close>

theorem parse_empty_dict_counterexample:
  "literal_stage eval_examples ''{}'' = Some [] \<and> findall ''{}'' = [] \<and>
   parse_composition_input eval_examples ''{}'' = Inr []"
  by (simp add: parse_composition_input_def literal_stage_def strip_empty_dict startswith_def
      endswith_def eval_examples_def findall_empty_dict)

section \<open>The structured literal\<close>

text \<open>
  C8, as amended. For every input whose stripped text begins with \<^verbatim>\<open>{\<close>, ends with \<^verbatim>\<open>}\<close>
  and evaluates to a dictionary, the parser returns that dictionary as it was evaluated,
  keys and values unchanged; on \<^verbatim>\<open>{"Fe": 98.0, "C": 2.0}\<close> it returns Fe 98.0, C 2.0.
\<close>

theorem literal_as_is:
  assumes "startswith (strip s) ''{''" and "endswith (strip s) ''}''"
    and "py_eval (strip s) = Some (PDict d)"
  shows "parse_composition_input py_eval s = Inr d"
  using assms by (simp add: parse_composition_input_def literal_stage_def)

theorem literal_as_is_witness:
  \<open>parse_composition_input eval_examples ''{"Fe": 98.0, "C": 2.0}'' =
     Inr [(PStr ''Fe'', PFloat 98.0), (PStr ''C'', PFloat 2.0)]\<close>
proof -
  let ?s = \<open>''{"Fe": 98.0, "C": 2.0}''\<close>
  have a: "startswith (strip ?s) ''{''" by (simp add: strip_literal startswith_def)
  have b: "endswith (strip ?s) ''}''" by (simp add: strip_literal endswith_def)
  have c: "eval_examples (strip ?s) = Some (PDict [(PStr ''Fe'', PFloat 98.0), (PStr ''C'', PFloat 2.0)])"
    by (simp add: strip_literal eval_examples_def)
  from literal_as_is[where py_eval = eval_examples and s = ?s, OF a b c] show ?thesis .
qed

text \<open>
  C8 as stated has every key coerced to a string and every value to a float. On
  \<^verbatim>\<open>{26: 100}\<close> the parser returns the integer key 26 with the integer value 100.
\<close>

theorem literal_not_coerced_counterexample:
  "parse_composition_input eval_examples ''{26: 100}'' = Inr [(PInt 26, PInt 100)] \<and>
   \<not> coerced [(PInt 26, PInt 100)]"
  by (simp add: parse_composition_input_def literal_stage_def strip_int_dict startswith_def
      endswith_def eval_examples_def coerced_def)

section \<open>Failure of the first stage\<close>

text \<open>
  C9. When the evaluation of the literal raises, the first stage returns nothing; whenever
  the first stage returns nothing, the result of the parser is the result of the token
  scan; and the only error the parser ever raises is \<open>ParseError\<close>, which stems from the
  token scan.
\<close>

theorem literal_failure_swallowed:
  "(py_eval (strip s) = None \<longrightarrow> literal_stage py_eval s = None) \<and>
   (literal_stage py_eval s = None \<longrightarrow> parse_composition_input py_eval s = scan_stage s) \<and>
   (case parse_composition_input py_eval s of Inl e \<Rightarrow> e = ParseError | Inr d \<Rightarrow> True)"
  by (auto simp: literal_stage_raise parse_scan parse_composition_input_def scan_stage_def Let_def
      split: option.splits sum.splits)

theorem literal_failure_swallowed_witness:
  "eval_examples (strip ''{Fe: 98.0, C: 2.0}'') = None \<and>
   parse_composition_input eval_examples ''{Fe: 98.0, C: 2.0}'' =
     Inr [(PStr ''Fe'', PFloat 98.0), (PStr ''C'', PFloat 2.0)]"
proof -
  let ?s = "''{Fe: 98.0, C: 2.0}''"
  have r: "eval_examples (strip ?s) = None" by (simp add: strip_braced eval_examples_def)
  note t = literal_failure_swallowed[of eval_examples ?s]
  from t r have "literal_stage eval_examples ?s = None" by blast
  with t have "parse_composition_input eval_examples ?s = scan_stage ?s" by blast
  also have "\<dots> = Inr [(PStr ''Fe'', PFloat 98.0), (PStr ''C'', PFloat 2.0)]"
    by (simp add: scan_stage_def findall_braced store_match_def py_float_98 py_float_2)
  finally show ?thesis using r by simp
qed

end
